theory Spec2Isabelle
  imports Complex_Main
begin

section \<open>Data model (shared/schema.ts)\<close>

text \<open>
  Timestamps are milliseconds since the epoch, identifiers and text columns are strings,
  a nullable column is an \<open>option\<close>. Each table of the schema is a list of rows in
  insertion order. Field names carry a short table prefix, since a record field is a
  constant of the theory. Columns that no modelled handler reads are left out. Strings
  are taken to hold no NUL character, which a text column does not store.
\<close>

type_synonym timestamp = int

datatype payment_status = Pending | Paid | Unidentified | Partial | Expired

fun statusName :: "payment_status \<Rightarrow> string" where
  "statusName Pending = ''pending''"
| "statusName Paid = ''paid''"
| "statusName Unidentified = ''unidentified''"
| "statusName Partial = ''partial''"
| "statusName Expired = ''expired''"

record Device =
  dev_id :: string
  dev_deviceUuid :: string
  dev_userId :: string
  dev_webhookTokenHash :: string
  dev_lastSeenAt :: "timestamp option"
  dev_revokedAt :: "timestamp option"

record PaymentRequest =
  pr_id :: string
  pr_shopId :: string
  pr_branchId :: string
  pr_amountCents :: int
  pr_status :: payment_status
  pr_shortTokenExpiresAt :: timestamp
  pr_createdAt :: timestamp
  pr_paidAt :: "timestamp option"

text \<open>
  A JavaScript number as the parser produces it: \<open>NaN\<close> or an integer (the result of
  \<open>Math.round\<close>).
\<close>

datatype jsnum = NaN | Num int

record SmsInbox =
  sms_id :: string
  sms_deviceId :: "string option"
  sms_rawText :: string
  sms_sender :: string
  sms_receivedAt :: timestamp
  sms_parsedAmountCents :: "int option"
  sms_parsedVpa :: "string option"
  sms_parsedUtr :: "string option"
  sms_parseConfidence :: "int option"
  sms_matchedRequestId :: "string option"
  sms_processedAt :: "timestamp option"

record Payment =
  pay_id :: string
  pay_paymentRequestId :: string
  pay_transactionId :: string
  pay_amountCents :: int
  pay_verifiedBy :: string
  pay_verifiedAt :: timestamp
  pay_notes :: "string option"

record MatchHistory =
  mh_id :: string
  mh_paymentRequestId :: string
  mh_smsInboxId :: "string option"
  mh_matchScore :: int
  mh_matchType :: string
  mh_matchedBy :: string
  mh_note :: "string option"

record db =
  devices :: "Device list"
  paymentRequests :: "PaymentRequest list"
  smsInbox :: "SmsInbox list"
  payments :: "Payment list"
  matchHistory :: "MatchHistory list"

section \<open>SMS parser (the regular expressions of POST /api/sms/webhook)\<close>

text \<open>
  The message text is a \<open>string\<close>: one \<open>char\<close> per code unit, so the model covers
  texts in the Latin-1 range. The character classes are those of the JavaScript regular
  expressions on that range: \<open>\d\<close> is \<open>0-9\<close>, \<open>\s\<close> is tab, line feed, vertical
  tab, form feed, carriage return, space and no-break space.
\<close>

definition isDigit :: "char \<Rightarrow> bool" where
  "isDigit c \<longleftrightarrow> c \<in> set ''0123456789''"

definition isSpace :: "char \<Rightarrow> bool" where
  "isSpace c \<longleftrightarrow>
     c \<in> set [CHR 0x09, CHR 0x0A, CHR 0x0B, CHR 0x0C, CHR 0x0D, CHR '' '', CHR 0xA0]"

definition isUpper :: "char \<Rightarrow> bool" where
  "isUpper c \<longleftrightarrow> c \<in> set ''ABCDEFGHIJKLMNOPQRSTUVWXYZ''"

definition isLower :: "char \<Rightarrow> bool" where
  "isLower c \<longleftrightarrow> c \<in> set ''abcdefghijklmnopqrstuvwxyz''"

definition isAlpha :: "char \<Rightarrow> bool" where
  "isAlpha c \<longleftrightarrow> isUpper c \<or> isLower c"

text \<open>\<open>[\d,]\<close>, the characters of the numeric literal.\<close>

definition isDigitOrComma :: "char \<Rightarrow> bool" where
  "isDigitOrComma c \<longleftrightarrow> isDigit c \<or> c = CHR '',''"

text \<open>\<open>[A-Z0-9]\<close> under the \<open>i\<close> flag.\<close>

definition isAlnum :: "char \<Rightarrow> bool" where
  "isAlnum c \<longleftrightarrow> isAlpha c \<or> isDigit c"

text \<open>\<open>[:\s]\<close>.\<close>

definition isColonOrSpace :: "char \<Rightarrow> bool" where
  "isColonOrSpace c \<longleftrightarrow> c = CHR '':'' \<or> isSpace c"

text \<open>\<open>[a-zA-Z0-9._-]\<close>, the local part of a VPA.\<close>

definition isVpaLocal :: "char \<Rightarrow> bool" where
  "isVpaLocal c \<longleftrightarrow> isAlpha c \<or> isDigit c \<or> c \<in> set ''._-''"

text \<open>Upper-casing of an ASCII letter, for matching under the \<open>i\<close> flag.\<close>

definition toUpper :: "char \<Rightarrow> char" where
  "toUpper c = (if isLower c then char_of (of_char c - (32::nat)) else c)"

text \<open>\<open>startsWithCI lit s\<close>: \<open>s\<close> begins with the literal \<open>lit\<close>, letters compared
  without case.\<close>

fun startsWithCI :: "string \<Rightarrow> string \<Rightarrow> bool" where
  "startsWithCI [] s = True"
| "startsWithCI (l # ls) [] = False"
| "startsWithCI (l # ls) (c # cs) = (toUpper l = toUpper c \<and> startsWithCI ls cs)"

text \<open>
  \<open>([\d,]+(?:\.\d{2})?)\<close> at the head of \<open>s\<close>: the longest run of digits and commas,
  which must not be empty, then a dot and two digits when they follow. The run is taken
  greedily; giving characters back cannot help, as the group after it may match the
  empty string.
\<close>

definition numericLiteral :: "string \<Rightarrow> string option" where
  "numericLiteral s =
     (let ds = takeWhile isDigitOrComma s; r = dropWhile isDigitOrComma s
      in if ds = [] then None
         else (case r of
                 d # a # b # _ \<Rightarrow>
                   if d = CHR ''.'' \<and> isDigit a \<and> isDigit b then Some (ds @ [d, a, b])
                   else Some ds
               | _ \<Rightarrow> Some ds))"

text \<open>\<open>\s*([\d,]+(?:\.\d{2})?)\<close> at the head of \<open>s\<close>.\<close>

definition afterMarker :: "string \<Rightarrow> string option" where
  "afterMarker s = numericLiteral (dropWhile isSpace s)"

text \<open>
  The whole pattern \<open>/Rs\.?\s*([\d,]+(?:\.\d{2})?)/i\<close> anchored at the head of \<open>s\<close>;
  the result is capture group 1. The optional dot is tried first with the dot consumed,
  then without it.
\<close>

definition amountAt :: "string \<Rightarrow> string option" where
  "amountAt s =
     (if startsWithCI ''Rs'' s then
        (let r = drop 2 s in
         case (case r of d # t \<Rightarrow> if d = CHR ''.'' then afterMarker t else None
                       | [] \<Rightarrow> None) of
           Some g \<Rightarrow> Some g
         | None \<Rightarrow> afterMarker r)
      else None)"

text \<open>\<open>text.match(...)\<close> without the \<open>g\<close> flag: the match at the leftmost start.\<close>

fun amountMatch :: "string \<Rightarrow> string option" where
  "amountMatch [] = None"
| "amountMatch (c # cs) =
     (case amountAt (c # cs) of Some g \<Rightarrow> Some g | None \<Rightarrow> amountMatch cs)"

text \<open>\<open>/(?:UTR|UPI|Ref|TxnId)[:\s]*([A-Z0-9]+)/i\<close> anchored at the head of \<open>s\<close>.\<close>

definition utrAfterLabel :: "string \<Rightarrow> string option" where
  "utrAfterLabel s =
     (let code = takeWhile isAlnum (dropWhile isColonOrSpace s)
      in if code = [] then None else Some code)"

definition utrAt :: "string \<Rightarrow> string option" where
  "utrAt s =
     (if startsWithCI ''UTR'' s then utrAfterLabel (drop 3 s)
      else if startsWithCI ''UPI'' s then utrAfterLabel (drop 3 s)
      else if startsWithCI ''Ref'' s then utrAfterLabel (drop 3 s)
      else if startsWithCI ''TxnId'' s then utrAfterLabel (drop 5 s)
      else None)"

fun utrMatch :: "string \<Rightarrow> string option" where
  "utrMatch [] = None"
| "utrMatch (c # cs) =
     (case utrAt (c # cs) of Some g \<Rightarrow> Some g | None \<Rightarrow> utrMatch cs)"

text \<open>\<open>/([a-zA-Z0-9._-]+@[a-zA-Z]+)/\<close> anchored at the head of \<open>s\<close>.\<close>

definition vpaAt :: "string \<Rightarrow> string option" where
  "vpaAt s =
     (let lp = takeWhile isVpaLocal s; r = dropWhile isVpaLocal s
      in if lp = [] then None
         else (case r of
                 a # t \<Rightarrow>
                   if a = CHR ''@'' \<and> takeWhile isAlpha t \<noteq> []
                   then Some (lp @ [a] @ takeWhile isAlpha t) else None
               | [] \<Rightarrow> None))"

fun vpaMatch :: "string \<Rightarrow> string option" where
  "vpaMatch [] = None"
| "vpaMatch (c # cs) =
     (case vpaAt (c # cs) of Some g \<Rightarrow> Some g | None \<Rightarrow> vpaMatch cs)"

text \<open>\<open>amountMatch[1].replace(/,/g, "")\<close>.\<close>

definition stripCommas :: "string \<Rightarrow> string" where
  "stripCommas s = filter (\<lambda>c. c \<noteq> CHR '','') s"

text \<open>The value of a string of decimal digits.\<close>

definition digitVal :: "char \<Rightarrow> nat" where
  "digitVal c = of_char c - 48"

definition digitsVal :: "string \<Rightarrow> nat" where
  "digitsVal s = foldl (\<lambda>acc c. 10 * acc + digitVal c) 0 s"

text \<open>
  \<open>parseFloat\<close> on an unsigned decimal literal without exponent, which is all the
  capture group can hold once the commas are gone: the digits before the dot, then the
  digits after it; \<open>None\<close> is \<open>NaN\<close> (no digit at all). The value is the exact
  rational; \<open>parseFloat\<close> and the multiplication round to a double, which
  \<open>Math.round\<close> undoes for every amount below \<open>2^53 / 100\<close>.
\<close>

definition parseFloat :: "string \<Rightarrow> rat option" where
  "parseFloat s =
     (let ip = takeWhile isDigit s; r = dropWhile isDigit s;
          fp = (case r of d # t \<Rightarrow> if d = CHR ''.'' then takeWhile isDigit t else []
                        | [] \<Rightarrow> [])
      in if ip = [] \<and> fp = [] then None
         else Some (of_nat (digitsVal ip) + of_nat (digitsVal fp) / 10 ^ length fp))"

text \<open>\<open>Math.round\<close>: the nearest integer, a half rounded up.\<close>

definition Math_round :: "rat \<Rightarrow> int" where
  "Math_round q = \<lfloor>q + 1 / 2\<rfloor>"

text \<open>
  \<open>amountMatch ? Math.round(parseFloat(amountMatch[1].replace(/,/g, "")) * 100) : null\<close>
\<close>

definition parsedAmount :: "string \<Rightarrow> jsnum option" where
  "parsedAmount text =
     (case amountMatch text of
        None \<Rightarrow> None
      | Some g \<Rightarrow>
          (case parseFloat (stripCommas g) of
             None \<Rightarrow> Some NaN
           | Some q \<Rightarrow> Some (Num (Math_round (q * 100)))))"

text \<open>JavaScript truthiness of the parsed amount: \<open>null\<close>, \<open>NaN\<close> and \<open>0\<close> are falsy.\<close>

fun truthyNum :: "jsnum option \<Rightarrow> bool" where
  "truthyNum None = False"
| "truthyNum (Some NaN) = False"
| "truthyNum (Some (Num n)) = (n \<noteq> 0)"

text \<open>\<open>parseConfidence: parsedAmount ? 80 : 50\<close>\<close>

definition parseConfidence :: "string \<Rightarrow> int" where
  "parseConfidence text = (if truthyNum (parsedAmount text) then 80 else 50)"

section \<open>Storage (DatabaseStorage)\<close>

text \<open>JavaScript truthiness of a nullable string.\<close>

fun truthyStr :: "string option \<Rightarrow> bool" where
  "truthyStr None = False"
| "truthyStr (Some s) = (s \<noteq> [])"

text \<open>\<open>x || null\<close> on a nullable string.\<close>

definition orNull :: "string option \<Rightarrow> string option" where
  "orNull x = (if truthyStr x then x else None)"

definition getDeviceByUuid :: "db \<Rightarrow> string \<Rightarrow> Device option" where
  "getDeviceByUuid d uuid = find (\<lambda>x. dev_deviceUuid x = uuid) (devices d)"

definition updateDevice :: "string \<Rightarrow> (Device \<Rightarrow> Device) \<Rightarrow> db \<Rightarrow> db" where
  "updateDevice i f d = d\<lparr>devices := map (\<lambda>x. if dev_id x = i then f x else x) (devices d)\<rparr>"


text \<open>
  \<open>getPaymentRequests(filters)\<close>: the conditions that are set, joined by \<open>and\<close>, then
  \<open>ORDER BY created_at DESC\<close>, then the limit. Rows with the same creation time keep
  their table order, which SQL leaves open.
\<close>

definition getPaymentRequests ::
  "db \<Rightarrow> string option \<Rightarrow> string option \<Rightarrow> string option \<Rightarrow> nat option \<Rightarrow> PaymentRequest list" where
  "getPaymentRequests d shopId branchId status limit =
     (let cond = (\<lambda>r.
            (if truthyStr shopId then Some (pr_shopId r) = shopId else True) \<and>
            (if truthyStr branchId then Some (pr_branchId r) = branchId else True) \<and>
            (if truthyStr status \<and> status \<noteq> Some ''all''
             then Some (statusName (pr_status r)) = status else True));
          rows = sort_key (\<lambda>r. - pr_createdAt r) (filter cond (paymentRequests d))
      in (case limit of
            None \<Rightarrow> rows
          | Some n \<Rightarrow> if n \<noteq> 0 then take n rows else rows))"


definition getSmsInbox :: "db \<Rightarrow> string \<Rightarrow> SmsInbox option" where
  "getSmsInbox d i = find (\<lambda>s. sms_id s = i) (smsInbox d)"

text \<open>
  \<open>getUnidentifiedSms(shopId?)\<close>: the rows with a null \<open>matchedRequestId\<close>, newest
  received first. The body does not read its argument.
\<close>

definition getUnidentifiedSms :: "db \<Rightarrow> string option \<Rightarrow> SmsInbox list" where
  "getUnidentifiedSms d shopId =
     sort_key (\<lambda>s. - sms_receivedAt s) (filter (\<lambda>s. sms_matchedRequestId s = None) (smsInbox d))"

definition updateSmsInbox :: "string \<Rightarrow> (SmsInbox \<Rightarrow> SmsInbox) \<Rightarrow> db \<Rightarrow> db" where
  "updateSmsInbox i f d = d\<lparr>smsInbox := map (\<lambda>s. if sms_id s = i then f s else s) (smsInbox d)\<rparr>"

text \<open>The range of an \<open>integer\<close> column.\<close>

definition int4 :: "int \<Rightarrow> bool" where
  "int4 n \<longleftrightarrow> - 2147483648 \<le> n \<and> n \<le> 2147483647"

text \<open>
  \<open>createSmsInbox\<close>: the insert is rejected (\<open>None\<close>, the driver throws) when the
  amount is outside the \<open>integer\<close> column or the reference is longer than the
  \<open>varchar(50)\<close> column.
\<close>

definition createSmsInbox :: "SmsInbox \<Rightarrow> db \<Rightarrow> db option" where
  "createSmsInbox s d =
     (if (case sms_parsedAmountCents s of None \<Rightarrow> True | Some n \<Rightarrow> int4 n) \<and>
         (case sms_parsedUtr s of None \<Rightarrow> True | Some u \<Rightarrow> length u \<le> 50)
      then Some (d\<lparr>smsInbox := smsInbox d @ [s]\<rparr>) else None)"




section \<open>Routes (registerRoutes)\<close>

text \<open>
  A handler takes the request, the values the environment supplies (the clock, the
  identifiers the database generates, the random suffix of \<open>nanoid\<close>) and the database,
  and returns the HTTP status with the database it leaves behind. \<open>logAudit\<close> catches its
  own errors and writes to a table no handler below reads, so it is left out.
\<close>

fun startsWith :: "string \<Rightarrow> string \<Rightarrow> bool" where
  "startsWith [] s = True"
| "startsWith (l # ls) [] = False"
| "startsWith (l # ls) (c # cs) = (l = c \<and> startsWith ls cs)"

text \<open>\<open>s.replace(pat, "")\<close> with a string pattern: the first occurrence is removed.\<close>

fun removeFirst :: "string \<Rightarrow> string \<Rightarrow> string" where
  "removeFirst pat [] = []"
| "removeFirst pat (c # cs) =
     (if startsWith pat (c # cs) then drop (length pat) (c # cs) else c # removeFirst pat cs)"

text \<open>
  The body of the webhook as \<open>smsWebhookSchema\<close> accepts it. \<open>wh_receivedAt\<close> is
  \<open>new Date(data.receivedAt)\<close>, \<open>None\<close> for an invalid date.
\<close>

record SmsWebhookInput =
  wh_deviceId :: string
  wh_from :: string
  wh_text :: string
  wh_receivedAt :: "timestamp option"

text \<open>
  POST /api/sms/webhook. \<open>hashToken\<close> is SHA-256 in the source and a parameter here;
  the two header values are \<open>x-webhook-token\<close> and \<open>authorization\<close>, each absent or
  a string (Node joins a repeated header into one string); \<open>body\<close> is \<open>None\<close> when
  the schema rejects it. The steps are in the order of the source: header, hash, body,
  device, last-seen update, parsing, insert.
\<close>

definition smsWebhook ::
  "(string \<Rightarrow> string) \<Rightarrow> string option \<Rightarrow> string option \<Rightarrow> SmsWebhookInput option \<Rightarrow>
   timestamp \<Rightarrow> string \<Rightarrow> db \<Rightarrow> nat \<times> db" where
  "smsWebhook hashToken xWebhookToken authorization body now newId d =
     (let authHeader = (if truthyStr xWebhookToken then xWebhookToken else authorization) in
      case (if truthyStr authHeader then authHeader else None) of
        None \<Rightarrow> (401, d)
      | Some h \<Rightarrow>
          (let tokenHash = hashToken (removeFirst ''Bearer '' h) in
           case body of
             None \<Rightarrow> (400, d)
           | Some data \<Rightarrow>
               (case getDeviceByUuid d (wh_deviceId data) of
                  None \<Rightarrow> (403, d)
                | Some device \<Rightarrow>
                    if dev_webhookTokenHash device \<noteq> tokenHash \<or> dev_revokedAt device \<noteq> None
                    then (403, d)
                    else
                      (let d1 = updateDevice (dev_id device) (\<lambda>x. x\<lparr>dev_lastSeenAt := Some now\<rparr>) d;
                           pa = parsedAmount (wh_text data)
                       in case (pa, wh_receivedAt data) of
                            (Some NaN, _) \<Rightarrow> (500, d1)
                          | (_, None) \<Rightarrow> (500, d1)
                          | (_, Some rcv) \<Rightarrow>
                              (case createSmsInbox
                                      \<lparr>sms_id = newId,
                                       sms_deviceId = Some (dev_id device),
                                       sms_rawText = wh_text data,
                                       sms_sender = wh_from data,
                                       sms_receivedAt = rcv,
                                       sms_parsedAmountCents =
                                         (case pa of Some (Num n) \<Rightarrow> Some n | _ \<Rightarrow> None),
                                       sms_parsedVpa = orNull (vpaMatch (wh_text data)),
                                       sms_parsedUtr = orNull (utrMatch (wh_text data)),
                                       sms_parseConfidence = Some (parseConfidence (wh_text data)),
                                       sms_matchedRequestId = None,
                                       sms_processedAt = None\<rparr> d1 of
                                 None \<Rightarrow> (500, d1)
                               | Some d2 \<Rightarrow> (200, d2))))))"

text \<open>GET /api/sms/unidentified, for a user whose token carries \<open>userShopId\<close>.\<close>

definition unidentifiedRoute :: "string option \<Rightarrow> db \<Rightarrow> SmsInbox list" where
  "unidentifiedRoute userShopId d = getUnidentifiedSms d (orNull userShopId)"

text \<open>The score of one request against one message, as the \<open>map\<close> callback computes it.\<close>

definition matchScore :: "SmsInbox \<Rightarrow> PaymentRequest \<Rightarrow> int" where
  "matchScore sms r =
     (case sms_parsedAmountCents sms of
        None \<Rightarrow> 0
      | Some a \<Rightarrow>
          if a \<noteq> 0 \<and> pr_amountCents r = a then 100
          else if a \<noteq> 0 \<and> \<bar>pr_amountCents r - a\<bar> < 100 then 80
          else 0)"

text \<open>
  GET /api/sms/:id/candidates: the pending requests of the user's shop, scored, those with
  a positive score kept, sorted by \<open>b.matchScore - a.matchScore\<close>.
  \<open>Array.prototype.sort\<close> is stable, as is \<open>sort_key\<close>. A candidate is the request
  paired with its \<open>matchScore\<close>.
\<close>

definition smsCandidates :: "string option \<Rightarrow> string \<Rightarrow> db \<Rightarrow> nat \<times> (PaymentRequest \<times> int) list" where
  "smsCandidates userShopId i d =
     (case getSmsInbox d i of
        None \<Rightarrow> (404, [])
      | Some sms \<Rightarrow>
          (200,
           sort_key (\<lambda>c. - snd c)
             (filter (\<lambda>c. snd c > 0)
                (map (\<lambda>r. (r, matchScore sms r))
                   (getPaymentRequests d (orNull userShopId) None (Some ''pending'') None)))))"




text \<open>POST /api/sms/:id/dismiss.\<close>

definition dismissSms :: "string \<Rightarrow> timestamp \<Rightarrow> db \<Rightarrow> nat \<times> db" where
  "dismissSms i now d = (200, updateSmsInbox i (\<lambda>s. s\<lparr>sms_processedAt := Some now\<rparr>) d)"



section \<open>Sample data\<close>

text \<open>
  A shop with one registered device and one pending request of 500.00, and the message of
  the first example scenario. The sample hash function stands for SHA-256.
\<close>

definition sample_hash :: "string \<Rightarrow> string" where
  "sample_hash t = ''h:'' @ t"

definition sample_device :: Device where
  "sample_device = \<lparr>dev_id = ''d1'', dev_deviceUuid = ''uuid1'', dev_userId = ''u1'',
     dev_webhookTokenHash = ''h:tok'', dev_lastSeenAt = None, dev_revokedAt = None\<rparr>"

definition sample_request :: PaymentRequest where
  "sample_request = \<lparr>pr_id = ''r1'', pr_shopId = ''s1'', pr_branchId = ''b1'',
     pr_amountCents = 50000, pr_status = Pending, pr_shortTokenExpiresAt = 1000,
     pr_createdAt = 1, pr_paidAt = None\<rparr>"

definition sample_db :: db where
  "sample_db = \<lparr>devices = [sample_device], paymentRequests = [sample_request],
     smsInbox = [], payments = [], matchHistory = []\<rparr>"

definition sample_text :: string where
  "sample_text = ''Rs. 500.00 credited. UTR: ABC123XYZ''"

definition sample_body :: SmsWebhookInput where
  "sample_body = \<lparr>wh_deviceId = ''uuid1'', wh_from = ''BANK'',
     wh_text = sample_text, wh_receivedAt = Some 5\<rparr>"

definition sample_sms :: SmsInbox where
  "sample_sms = \<lparr>sms_id = ''m1'', sms_deviceId = Some ''d1'', sms_rawText = sample_text,
     sms_sender = ''BANK'', sms_receivedAt = 5, sms_parsedAmountCents = Some 50000,
     sms_parsedVpa = None, sms_parsedUtr = Some ''ABC123XYZ'', sms_parseConfidence = Some 80,
     sms_matchedRequestId = None, sms_processedAt = None\<rparr>"

text \<open>The database after the webhook has stored the sample message at time 7.\<close>

definition sample_received :: db where
  "sample_received = \<lparr>devices = [sample_device\<lparr>dev_lastSeenAt := Some 7\<rparr>],
     paymentRequests = [sample_request], smsInbox = [sample_sms], payments = [],
     matchHistory = []\<rparr>"



text \<open>A second unmatched message, forwarded by another device.\<close>

definition other_sms :: SmsInbox where
  "other_sms = \<lparr>sms_id = ''m2'', sms_deviceId = Some ''d9'', sms_rawText = ''hello'',
     sms_sender = ''X'', sms_receivedAt = 6, sms_parsedAmountCents = None,
     sms_parsedVpa = None, sms_parsedUtr = None, sms_parseConfidence = Some 50,
     sms_matchedRequestId = None, sms_processedAt = None\<rparr>"

definition two_inbox :: db where
  "two_inbox = sample_received\<lparr>smsInbox := [sample_sms, other_sms]\<rparr>"

text \<open>
  Variants of the sample request: one whose amount differs from the message by exactly
  100, one whose short link expired at time 3 (before the message was received), and a
  second request of the same amount created later.
\<close>

definition tolerance_request :: PaymentRequest where
  "tolerance_request = sample_request\<lparr>pr_amountCents := 50100\<rparr>"

definition tolerance_db :: db where
  "tolerance_db = sample_received\<lparr>paymentRequests := [tolerance_request]\<rparr>"

definition expired_request :: PaymentRequest where
  "expired_request = sample_request\<lparr>pr_shortTokenExpiresAt := 3\<rparr>"

definition expired_db :: db where
  "expired_db = sample_received\<lparr>paymentRequests := [expired_request]\<rparr>"

definition newer_request :: PaymentRequest where
  "newer_request = sample_request\<lparr>pr_id := ''r2'', pr_createdAt := 2\<rparr>"

definition tie_db :: db where
  "tie_db = sample_received\<lparr>paymentRequests := [sample_request, newer_request]\<rparr>"












section \<open>Evaluation of the samples\<close>

lemma sample_text_amount: "parsedAmount sample_text = Some (Num 50000)"
  unfolding sample_text_def by code_simp

lemma sample_text_utr: "utrMatch sample_text = Some ''ABC123XYZ''"
  unfolding sample_text_def by code_simp

lemma sample_text_vpa: "vpaMatch sample_text = None"
  unfolding sample_text_def by code_simp

lemma sample_webhook:
  "smsWebhook sample_hash None (Some ''Bearer tok'') (Some sample_body) 7 ''m1'' sample_db
     = (200, sample_received)"
  by (simp add: smsWebhook_def sample_hash_def sample_body_def sample_db_def sample_device_def
        getDeviceByUuid_def updateDevice_def sample_text_amount sample_text_utr sample_text_vpa
        parseConfidence_def createSmsInbox_def int4_def orNull_def sample_received_def
        sample_sms_def)


lemma sample_candidates:
  "smsCandidates (Some ''s1'') ''m1'' sample_received = (200, [(sample_request, 100)])"
  by (simp add: smsCandidates_def sample_received_def getSmsInbox_def sample_sms_def
        getPaymentRequests_def orNull_def sample_request_def matchScore_def)

section \<open>The webhook: resolution of an admitted message\<close>

text \<open>
  C1, as stated, fails on the sample: the message is admitted, its only candidate is the
  pending request with score 100, and the webhook leaves the request pending, records no
  payment and no match record, and stores the message unmatched.
\<close>

theorem webhook_auto_match_counterexample:
  "smsWebhook sample_hash None (Some ''Bearer tok'') (Some sample_body) 7 ''m1'' sample_db
     = (200, sample_received) \<and>
   smsCandidates (Some ''s1'') ''m1'' sample_received = (200, [(sample_request, 100)]) \<and>
   payments sample_received = [] \<and>
   matchHistory sample_received = [] \<and>
   map pr_status (paymentRequests sample_received) = [Pending] \<and>
   map sms_matchedRequestId (smsInbox sample_received) = [None]"
  by (simp add: sample_webhook sample_candidates)
     (simp add: sample_received_def sample_request_def sample_sms_def)

text \<open>
  C1 (amended): whatever the candidates of the message are, the webhook records no
  settlement payment, changes no payment request and writes no match record; a message it
  stores (status 200) is appended with a null \<open>matchedRequestId\<close> and a null
  \<open>processedAt\<close>, so it is listed in the manual-review queue; with any other status the
  inbox is unchanged.
\<close>

theorem webhook_never_matches:
  assumes "smsWebhook H x a body now newId d = (code, d')"
  shows "payments d' = payments d \<and> matchHistory d' = matchHistory d \<and>
         paymentRequests d' = paymentRequests d \<and>
         (code = 200 \<longrightarrow>
            (\<exists>s. smsInbox d' = smsInbox d @ [s] \<and> sms_id s = newId \<and>
                 sms_matchedRequestId s = None \<and> sms_processedAt s = None \<and>
                 s \<in> set (getUnidentifiedSms d' shop))) \<and>
         (code \<noteq> 200 \<longrightarrow> smsInbox d' = smsInbox d)"
  using assms
  by (auto simp: smsWebhook_def Let_def createSmsInbox_def updateDevice_def getUnidentifiedSms_def
           split: option.splits if_splits prod.splits jsnum.splits)

theorem webhook_never_matches_witness:
  "smsWebhook sample_hash None (Some ''Bearer tok'') (Some sample_body) 7 ''m1'' sample_db
     = (200, sample_received) \<and>
   payments sample_received = payments sample_db \<and>
   matchHistory sample_received = matchHistory sample_db \<and>
   paymentRequests sample_received = paymentRequests sample_db \<and>
   smsInbox sample_received = smsInbox sample_db @ [sample_sms] \<and>
   sms_matchedRequestId sample_sms = None"
  using webhook_never_matches [OF sample_webhook, of "Some ''s1''"] sample_webhook
  by (simp add: sample_received_def sample_db_def sample_sms_def)

section \<open>The webhook: the device gate\<close>








section \<open>Parse confidence\<close>








section \<open>The unidentified listing\<close>

text \<open>
  C10: the listing does not depend on its shop argument, nor does the route depend on
  the shop of the user; it holds exactly the inbox rows with a null
  \<open>matchedRequestId\<close>, of whatever device; and a row with a null \<open>matchedRequestId\<close>
  is still listed after it has been dismissed, with its \<open>processedAt\<close> set.
\<close>

theorem getUnidentifiedSms_ignores_shop:
  "getUnidentifiedSms d shop1 = getUnidentifiedSms d shop2 \<and>
   unidentifiedRoute user1 d = unidentifiedRoute user2 d \<and>
   set (getUnidentifiedSms d shop1) = {s \<in> set (smsInbox d). sms_matchedRequestId s = None} \<and>
   (\<forall>s \<in> set (smsInbox d). sms_matchedRequestId s = None \<longrightarrow>
      s\<lparr>sms_processedAt := Some now\<rparr>
        \<in> set (getUnidentifiedSms (snd (dismissSms (sms_id s) now d)) shop1))"
  by (auto simp: getUnidentifiedSms_def unidentifiedRoute_def dismissSms_def updateSmsInbox_def
        image_iff)

theorem getUnidentifiedSms_ignores_shop_witness:
  "getUnidentifiedSms two_inbox (Some ''s1'') = [other_sms, sample_sms] \<and>
   getUnidentifiedSms two_inbox (Some ''s2'') = [other_sms, sample_sms] \<and>
   sms_deviceId other_sms = Some ''d9'' \<and> sms_deviceId sample_sms = Some ''d1'' \<and>
   getUnidentifiedSms (snd (dismissSms ''m1'' 9 two_inbox)) (Some ''s2'')
     = [other_sms, sample_sms\<lparr>sms_processedAt := Some 9\<rparr>]"
  using getUnidentifiedSms_ignores_shop [of two_inbox "Some ''s1''" "Some ''s2''" None None 9]
  by (simp add: getUnidentifiedSms_def two_inbox_def sample_sms_def other_sms_def
        dismissSms_def updateSmsInbox_def)

section \<open>Candidate scoring\<close>

lemma statusName_pending [simp]: "statusName s = ''pending'' \<longleftrightarrow> s = Pending"
  by (cases s) simp_all

lemma set_getPaymentRequests_pending:
  "set (getPaymentRequests d shop None (Some ''pending'') None) =
     {r \<in> set (paymentRequests d). pr_status r = Pending \<and>
        (truthyStr shop \<longrightarrow> Some (pr_shopId r) = shop)}"
  by (auto simp: getPaymentRequests_def)

lemma truthyStr_orNull [simp]: "truthyStr (orNull x) = truthyStr x"
  by (simp add: orNull_def)

lemma orNull_eq_Some: "truthyStr x \<Longrightarrow> orNull x = x"
  by (simp add: orNull_def)

lemma set_smsCandidates:
  assumes "getSmsInbox d i = Some sms"
  shows "smsCandidates shop i d = (200, snd (smsCandidates shop i d))"
    and "set (snd (smsCandidates shop i d)) =
          {(r, sc). r \<in> set (paymentRequests d) \<and> pr_status r = Pending \<and>
             (truthyStr shop \<longrightarrow> Some (pr_shopId r) = shop) \<and>
             sc = matchScore sms r \<and> 0 < sc}"
  using assms
  by (auto simp: smsCandidates_def set_getPaymentRequests_pending orNull_eq_Some)

lemma matchScore_cases:
  "matchScore sms r = 100 \<longleftrightarrow>
     (\<exists>a. sms_parsedAmountCents sms = Some a \<and> a \<noteq> 0 \<and> pr_amountCents r = a)"
  "matchScore sms r = 80 \<longleftrightarrow>
     (\<exists>a. sms_parsedAmountCents sms = Some a \<and> a \<noteq> 0 \<and> pr_amountCents r \<noteq> a \<and>
          \<bar>pr_amountCents r - a\<bar> < 100)"
  "matchScore sms r = 0 \<longleftrightarrow>
     (sms_parsedAmountCents sms = None \<or> sms_parsedAmountCents sms = Some 0 \<or>
      (\<exists>a. sms_parsedAmountCents sms = Some a \<and> 100 \<le> \<bar>pr_amountCents r - a\<bar>))"
  "matchScore sms r = 100 \<or> matchScore sms r = 80 \<or> matchScore sms r = 0"
  by (auto simp: matchScore_def split: option.splits)


lemma sample_getSmsInbox: "getSmsInbox sample_received ''m1'' = Some sample_sms"
  by (simp add: getSmsInbox_def sample_received_def sample_sms_def)

lemma tolerance_candidates:
  "smsCandidates (Some ''s1'') ''m1'' tolerance_db = (200, [])"
  by (simp add: smsCandidates_def tolerance_db_def sample_received_def getSmsInbox_def
        sample_sms_def getPaymentRequests_def orNull_def tolerance_request_def
        sample_request_def matchScore_def)

lemma tolerance_pending:
  "getPaymentRequests tolerance_db (orNull (Some ''s1'')) None (Some ''pending'') None
     = [tolerance_request]"
  by (simp add: tolerance_db_def sample_received_def getPaymentRequests_def orNull_def
        tolerance_request_def sample_request_def)

text \<open>
  C4, as stated, fails at a difference of exactly 100: the request is pending, its amount
  is within 100 of the message's amount, and it is not returned.
\<close>

theorem candidate_scores_counterexample:
  "getSmsInbox tolerance_db ''m1'' = Some sample_sms \<and>
   sms_parsedAmountCents sample_sms = Some 50000 \<and>
   getPaymentRequests tolerance_db (orNull (Some ''s1'')) None (Some ''pending'') None
     = [tolerance_request] \<and>
   \<bar>pr_amountCents tolerance_request - 50000\<bar> \<le> 100 \<and>
   smsCandidates (Some ''s1'') ''m1'' tolerance_db = (200, [])"
  by (simp add: tolerance_candidates tolerance_pending)
     (simp add: tolerance_db_def sample_received_def getSmsInbox_def sample_sms_def
        tolerance_request_def sample_request_def)

text \<open>
  C4 (amended): for a message whose parsed amount is not null and not zero, a pending
  request of the queried set is returned with score 100 exactly when its amount equals
  the message's amount, with score 80 exactly when the amounts differ by less than 100,
  and is not returned exactly when they differ by 100 or more; no other score is
  returned, and for a message without a parsed amount nothing is returned.
\<close>

theorem candidate_scores:
  assumes sms: "getSmsInbox d i = Some sms"
    and r: "r \<in> set (getPaymentRequests d (orNull shop) None (Some ''pending'') None)"
  shows "(\<forall>a. sms_parsedAmountCents sms = Some a \<and> a \<noteq> 0 \<longrightarrow>
            ((r, 100) \<in> set (snd (smsCandidates shop i d)) \<longleftrightarrow> pr_amountCents r = a) \<and>
            ((r, 80) \<in> set (snd (smsCandidates shop i d)) \<longleftrightarrow>
                pr_amountCents r \<noteq> a \<and> \<bar>pr_amountCents r - a\<bar> < 100) \<and>
            (r \<notin> fst ` set (snd (smsCandidates shop i d)) \<longleftrightarrow>
                100 \<le> \<bar>pr_amountCents r - a\<bar>)) \<and>
         (sms_parsedAmountCents sms = None \<longrightarrow> snd (smsCandidates shop i d) = []) \<and>
         (\<forall>sc. (r, sc) \<in> set (snd (smsCandidates shop i d)) \<longrightarrow> sc = 100 \<or> sc = 80)"
proof -
  from r have r': "r \<in> set (paymentRequests d)" "pr_status r = Pending"
    "truthyStr shop \<longrightarrow> Some (pr_shopId r) = shop"
    by (auto simp: set_getPaymentRequests_pending orNull_eq_Some)
  have m: "\<And>sc. (r, sc) \<in> set (snd (smsCandidates shop i d)) \<longleftrightarrow> sc = matchScore sms r \<and> 0 < sc"
    using r' by (auto simp: set_smsCandidates(2)[OF sms])
  have "fst ` set (snd (smsCandidates shop i d)) = {r'. \<exists>sc. (r', sc) \<in> set (snd (smsCandidates shop i d))}"
    by force
  then have n: "r \<notin> fst ` set (snd (smsCandidates shop i d)) \<longleftrightarrow> \<not> 0 < matchScore sms r"
    using m by auto
  have e: "sms_parsedAmountCents sms = None \<longrightarrow> snd (smsCandidates shop i d) = []"
  proof
    assume "sms_parsedAmountCents sms = None"
    then have "set (snd (smsCandidates shop i d)) = {}"
      by (auto simp: set_smsCandidates(2)[OF sms] matchScore_def)
    then show "snd (smsCandidates shop i d) = []" by simp
  qed
  have s: "\<forall>a. sms_parsedAmountCents sms = Some a \<and> a \<noteq> 0 \<longrightarrow>
            ((r, 100) \<in> set (snd (smsCandidates shop i d)) \<longleftrightarrow> pr_amountCents r = a) \<and>
            ((r, 80) \<in> set (snd (smsCandidates shop i d)) \<longleftrightarrow>
                pr_amountCents r \<noteq> a \<and> \<bar>pr_amountCents r - a\<bar> < 100) \<and>
            (r \<notin> fst ` set (snd (smsCandidates shop i d)) \<longleftrightarrow>
                100 \<le> \<bar>pr_amountCents r - a\<bar>)"
    unfolding m n by (auto simp: matchScore_def)
  have v: "\<forall>sc. (r, sc) \<in> set (snd (smsCandidates shop i d)) \<longrightarrow> sc = 100 \<or> sc = 80"
    unfolding m using matchScore_cases(4)[of sms r] by auto
  from s e v show ?thesis by blast
qed

lemma sample_sms_amount: "sms_parsedAmountCents sample_sms = Some 50000"
  by (simp add: sample_sms_def)

theorem candidate_scores_witness:
  "getSmsInbox sample_received ''m1'' = Some sample_sms \<and>
   sms_parsedAmountCents sample_sms = Some 50000 \<and>
   sample_request \<in> set (getPaymentRequests sample_received (orNull (Some ''s1'')) None
                           (Some ''pending'') None) \<and>
   pr_amountCents sample_request = 50000 \<and>
   (sample_request, 100) \<in> set (snd (smsCandidates (Some ''s1'') ''m1'' sample_received))"
proof -
  have b: "pr_amountCents sample_request = 50000"
    by (simp add: sample_request_def)
  have p: "sample_request \<in> set (getPaymentRequests sample_received (orNull (Some ''s1'')) None
                           (Some ''pending'') None)"
    by (simp add: getPaymentRequests_def orNull_def sample_received_def sample_request_def)
  from candidate_scores [OF sample_getSmsInbox p] sample_sms_amount b
  have "(sample_request, 100) \<in> set (snd (smsCandidates (Some ''s1'') ''m1'' sample_received))"
    by auto
  with sample_getSmsInbox sample_sms_amount b p show ?thesis by simp
qed

lemma expired_candidates:
  "smsCandidates (Some ''s1'') ''m1'' expired_db = (200, [(expired_request, 100)])"
  by (simp add: smsCandidates_def expired_db_def sample_received_def getSmsInbox_def
        sample_sms_def getPaymentRequests_def orNull_def expired_request_def
        sample_request_def matchScore_def)

text \<open>
  C8, as stated, fails: a pending request whose expiry time lies before the reception of
  the message is returned as a candidate, with score 100.
\<close>

theorem candidates_expiry_counterexample:
  "pr_shortTokenExpiresAt expired_request < sms_receivedAt sample_sms \<and>
   pr_status expired_request = Pending \<and>
   getSmsInbox expired_db ''m1'' = Some sample_sms \<and>
   smsCandidates (Some ''s1'') ''m1'' expired_db = (200, [(expired_request, 100)])"
  by (simp add: expired_candidates)
     (simp add: expired_db_def sample_received_def getSmsInbox_def sample_sms_def
        expired_request_def sample_request_def)

text \<open>
  C8 (amended): the candidates are exactly the payment requests with status pending (of
  the user's shop, when the user has one) whose score is positive; the expiry time of a
  request is not consulted, so a pending request with the message's amount is returned
  with score 100 whatever its expiry time.
\<close>

theorem candidates_pending_only:
  assumes sms: "getSmsInbox d i = Some sms"
  shows "((r, sc) \<in> set (snd (smsCandidates shop i d)) \<longleftrightarrow>
            r \<in> set (paymentRequests d) \<and> pr_status r = Pending \<and>
            (truthyStr shop \<longrightarrow> Some (pr_shopId r) = shop) \<and>
            sc = matchScore sms r \<and> 0 < sc) \<and>
         (\<forall>e. r\<lparr>pr_shortTokenExpiresAt := e\<rparr> \<in> set (paymentRequests d) \<and>
              pr_status r = Pending \<and> (truthyStr shop \<longrightarrow> Some (pr_shopId r) = shop) \<and>
              pr_amountCents r \<noteq> 0 \<and> sms_parsedAmountCents sms = Some (pr_amountCents r) \<longrightarrow>
              (r\<lparr>pr_shortTokenExpiresAt := e\<rparr>, 100) \<in> set (snd (smsCandidates shop i d)))"
  by (auto simp: set_smsCandidates(2)[OF sms] matchScore_def)

theorem candidates_pending_only_witness:
  "getSmsInbox expired_db ''m1'' = Some sample_sms \<and>
   expired_request \<in> set (paymentRequests expired_db) \<and>
   pr_status expired_request = Pending \<and>
   pr_shortTokenExpiresAt expired_request = 3 \<and>
   matchScore sample_sms expired_request = 100 \<and>
   (expired_request, 100) \<in> set (snd (smsCandidates (Some ''s1'') ''m1'' expired_db))"
proof -
  have g: "getSmsInbox expired_db ''m1'' = Some sample_sms"
    by (simp add: expired_db_def sample_received_def getSmsInbox_def sample_sms_def)
  have f: "expired_request \<in> set (paymentRequests expired_db)"
    "pr_status expired_request = Pending" "pr_shortTokenExpiresAt expired_request = 3"
    "Some (pr_shopId expired_request) = Some ''s1''"
    "matchScore sample_sms expired_request = 100"
    by (simp_all add: expired_db_def expired_request_def sample_request_def sample_sms_def
          matchScore_def)
  from candidates_pending_only [OF g, of expired_request 100 "Some ''s1''"] f
  have "(expired_request, 100) \<in> set (snd (smsCandidates (Some ''s1'') ''m1'' expired_db))"
    by simp
  with g f show ?thesis by simp
qed

section \<open>Candidate order\<close>

lemma insort_key_lex:
  assumes "sorted_wrt (\<lambda>a b. f a < f b \<or> (f a = f b \<and> g a \<le> g b)) ys"
    and "\<forall>y \<in> set ys. g x \<le> g y"
  shows "sorted_wrt (\<lambda>a b. f a < f b \<or> (f a = f b \<and> g a \<le> g b)) (insort_key f x ys)"
  using assms
proof (induction ys)
  case Nil
  then show ?case by simp
next
  case (Cons y ys)
  show ?case
  proof (cases "f x \<le> f y")
    case True
    have "\<forall>z \<in> set (y # ys). f x < f z \<or> (f x = f z \<and> g x \<le> g z)"
      using True Cons.prems by fastforce
    with True Cons.prems(1) show ?thesis by simp
  next
    case False
    have "sorted_wrt (\<lambda>a b. f a < f b \<or> (f a = f b \<and> g a \<le> g b)) (insort_key f x ys)"
      using Cons by simp
    moreover have "\<forall>z \<in> set (insort_key f x ys). f y < f z \<or> (f y = f z \<and> g y \<le> g z)"
      using False Cons.prems(1) by (auto simp: set_insort_key)
    ultimately show ?thesis using False by simp
  qed
qed

lemma sort_key_lex:
  fixes f :: "'a \<Rightarrow> int" and g :: "'a \<Rightarrow> int"
  assumes "sorted (map g xs)"
  shows "sorted_wrt (\<lambda>a b. f a < f b \<or> (f a = f b \<and> g a \<le> g b)) (sort_key f xs)"
  using assms
proof (induction xs)
  case Nil
  then show ?case by simp
next
  case (Cons x xs)
  have "\<forall>y \<in> set (sort_key f xs). g x \<le> g y"
    using Cons.prems by auto
  with Cons show ?case
    by (simp add: insort_key_lex)
qed

lemma sorted_map_filter: "sorted (map h xs) \<Longrightarrow> sorted (map h (filter P xs))"
  by (induction xs) auto

text \<open>
  C5 (amended): the candidates are sorted by descending score, and candidates with the
  same score appear in descending order of the creation time of their request (newest
  first).
\<close>

theorem candidates_order:
  "sorted_wrt (\<lambda>c c'. snd c' < snd c \<or>
                 (snd c' = snd c \<and> pr_createdAt (fst c') \<le> pr_createdAt (fst c)))
     (snd (smsCandidates shop i d))"
proof (cases "getSmsInbox d i")
  case None
  then show ?thesis by (simp add: smsCandidates_def)
next
  case (Some sms)
  let ?rows = "getPaymentRequests d (orNull shop) None (Some ''pending'') None"
  let ?xs = "filter (\<lambda>c. snd c > 0) (map (\<lambda>r. (r, matchScore sms r)) ?rows)"
  have "sorted (map (\<lambda>r. - pr_createdAt r) ?rows)"
    by (simp add: getPaymentRequests_def)
  then have "sorted (map (\<lambda>c. - pr_createdAt (fst c)) (map (\<lambda>r. (r, matchScore sms r)) ?rows))"
    by (simp add: comp_def)
  then have "sorted (map (\<lambda>c. - pr_createdAt (fst c)) ?xs)"
    by (rule sorted_map_filter)
  from sort_key_lex[OF this, of "\<lambda>c. - snd c"]
  have "sorted_wrt (\<lambda>a b. - snd a < - snd b \<or>
           (- snd a = - snd b \<and> - pr_createdAt (fst a) \<le> - pr_createdAt (fst b)))
          (sort_key (\<lambda>c. - snd c) ?xs)" .
  then have "sorted_wrt (\<lambda>c c'. snd c' < snd c \<or>
                 (snd c' = snd c \<and> pr_createdAt (fst c') \<le> pr_createdAt (fst c)))
          (sort_key (\<lambda>c. - snd c) ?xs)"
    by (rule sorted_wrt_mono_rel[rotated]) auto
  then show ?thesis using Some by (simp add: smsCandidates_def)
qed

lemma tie_candidates:
  "smsCandidates (Some ''s1'') ''m1'' tie_db = (200, [(newer_request, 100), (sample_request, 100)])"
  by (simp add: smsCandidates_def tie_db_def sample_received_def getSmsInbox_def
        sample_sms_def getPaymentRequests_def orNull_def newer_request_def
        sample_request_def matchScore_def)

text \<open>
  C5, as stated, fails: of two pending requests with the message's amount, the one created
  later comes first.
\<close>

theorem candidates_order_counterexample:
  "smsCandidates (Some ''s1'') ''m1'' tie_db = (200, [(newer_request, 100), (sample_request, 100)]) \<and>
   pr_createdAt sample_request < pr_createdAt newer_request"
  by (simp add: tie_candidates) (simp add: newer_request_def sample_request_def)

theorem candidates_order_witness:
  "snd (smsCandidates (Some ''s1'') ''m1'' tie_db) = [(newer_request, 100), (sample_request, 100)] \<and>
   pr_createdAt sample_request \<le> pr_createdAt newer_request"
  using candidates_order [of "Some ''s1''" "''m1''" tie_db]
  by (simp add: tie_candidates)

section \<open>Manual match and payment verification\<close>















section \<open>Amount extraction\<close>

lemma toUpper_Rs [simp]:
  "toUpper (CHR ''R'') = CHR ''R''" "toUpper (CHR ''r'') = CHR ''R''"
  "toUpper (CHR ''S'') = CHR ''S''" "toUpper (CHR ''s'') = CHR ''S''"
  by code_simp+






lemma amountAt_Nil [simp]: "amountAt [] = None"
  by (simp add: amountAt_def)




















end
